theory Spec2Isabelle
  imports Complex_Main
begin

section \<open>Data model of \<open>GlContextSystem.ts\<close>\<close>

text \<open>
  A native rendering context is an object of the host; the manager only holds a reference
  to it. References are modelled as natural numbers (object identities), the objects
  themselves live in the \<open>world\<close> record further down.
\<close>

type_synonym handle = nat

type_synonym event = nat

datatype WebGLPowerPreference = pp_default | pp_high_performance | pp_low_power

text \<open>
  A JavaScript number, as far as the comparison \<open>alpha < 1\<close> can tell values apart:
  every comparison with \<open>NaN\<close> is false.
\<close>

datatype number = Finite real | NaN | PosInfinity | NegInfinity

fun number_less :: "number \<Rightarrow> number \<Rightarrow> bool" where
  "number_less NaN _ = False"
| "number_less _ NaN = False"
| "number_less (Finite x) (Finite y) = (x < y)"
| "number_less (Finite x) PosInfinity = True"
| "number_less (Finite x) NegInfinity = False"
| "number_less PosInfinity _ = False"
| "number_less NegInfinity NegInfinity = False"
| "number_less NegInfinity _ = True"

text \<open>
  \<open>ContextSystemOptions\<close>. The field \<open>context\<close> is \<open>WebGL2RenderingContext | null\<close>,
  \<open>antialias\<close> is declared optional, and \<open>init\<close> reads \<open>premultipliedAlpha\<close> through
  \<open>?? true\<close>, so these three may be absent.
\<close>

record ContextSystemOptions =
  opt_context :: "handle option"
  opt_powerPreference :: WebGLPowerPreference
  opt_premultipliedAlpha :: "bool option"
  opt_preserveDrawingBuffer :: bool
  opt_antialias :: "bool option"

text \<open>The \<open>WebGLContextAttributes\<close> literal that \<open>init\<close> builds.\<close>

record WebGLContextAttributes =
  attr_alpha :: bool
  attr_premultipliedAlpha :: bool
  attr_antialias :: "bool option"
  attr_stencil :: bool
  attr_preserveDrawingBuffer :: bool
  attr_powerPreference :: WebGLPowerPreference

text \<open>
  An extension object returned by \<open>gl.getExtension(name)\<close>: it belongs to one context and
  is the object of one extension name.
\<close>

datatype extension = Extension handle string

record ISupportDict =
  uint32Indices :: bool

text \<open>
  The drawing surface (\<open>ICanvas\<close>) and the renderer, restricted to what the manager reads
  from them: \<open>renderer.background.alpha\<close> and \<open>renderer.view.element\<close>. What the manager
  changes on them (listener registrations, runner emissions) is part of the \<open>world\<close>.
\<close>

record ICanvas =
  canvas_getContext :: "string \<Rightarrow> WebGLContextAttributes \<Rightarrow> handle option"

record WebGLRenderer =
  background_alpha :: number
  view_element :: ICanvas

text \<open>
  The fields of the class. \<open>preserveDrawingBuffer\<close>, \<open>powerPreference\<close>, \<open>CONTEXT_UID\<close> and
  \<open>gl\<close> are declared without initialiser, so they are undefined (\<open>None\<close>) after
  construction; \<open>renderer\<close> is set to \<open>null\<close> by \<open>destroy\<close>. The \<open>extensions\<close> object maps a
  property name to an extension object; a property holding \<open>null\<close> and a missing property
  are both \<open>None\<close> (the code only tests them for truthiness).
\<close>

record GlContextSystem =
  renderer :: "WebGLRenderer option"
  webGLVersion :: nat
  supports :: ISupportDict
  preserveDrawingBuffer :: "bool option"
  powerPreference :: "WebGLPowerPreference option"
  CONTEXT_UID :: "nat option"
  gl :: "handle option"
  extensions :: "string \<Rightarrow> extension option"

subsection \<open>The host environment\<close>

text \<open>The two bound methods that the constructor creates and \<open>initFromContext\<close> registers.\<close>

datatype listener = handleContextLost_bound | handleContextRestored_bound

text \<open>Every call the manager makes into the host that has an effect there, in order.\<close>

datatype effect =
    GetContext string WebGLContextAttributes
  | ConsoleWarn string
  | EmitContextChange "handle option"
  | AddEventListener string listener
  | RemoveEventListener string listener
  | PreventDefault event
  | UseProgramNull handle
  | LoseContext handle

text \<open>
  A native context object: whether \<open>gl instanceof globalThis.WebGL2RenderingContext\<close>
  holds, the answer of \<open>isContextLost()\<close>, the answer of \<open>getContextAttributes()\<close> and the
  extension names for which \<open>getExtension\<close> returns an object.
\<close>

record GlContext =
  instanceofWebGL2RenderingContext :: bool
  contextLost :: bool
  contextAttributes :: "WebGLContextAttributes option"
  supportedExtensions :: "string list"

record world =
  WebGL2RenderingContext_in_globalThis :: bool
  contexts :: "handle \<Rightarrow> GlContext"
  listeners :: "(string \<times> listener) list"
  trace :: "effect list"

datatype error = TypeError string

text \<open>
  An operation runs on the manager and the world and either returns or throws; in both
  cases the manager and the world are as the operation left them.
\<close>

type_synonym 'a res = "(error + 'a) \<times> GlContextSystem \<times> world"

definition isContextLost :: "world \<Rightarrow> handle \<Rightarrow> bool" where
  "isContextLost w h = contextLost (contexts w h)"

definition getExtension :: "world \<Rightarrow> handle \<Rightarrow> string \<Rightarrow> extension option" where
  "getExtension w h name =
     (if name \<in> set (supportedExtensions (contexts w h)) then Some (Extension h name) else None)"

definition getContextAttributes :: "world \<Rightarrow> handle \<Rightarrow> WebGLContextAttributes option" where
  "getContextAttributes w h = contextAttributes (contexts w h)"

definition log :: "effect \<Rightarrow> world \<Rightarrow> world" where
  "log e w = w\<lparr>trace := trace w @ [e]\<rparr>"

text \<open>
  \<open>addEventListener\<close> does not register the same callback for the same event type twice;
  \<open>removeEventListener\<close> removes the registration if there is one.
\<close>

definition addEventListener :: "string \<Rightarrow> listener \<Rightarrow> world \<Rightarrow> world" where
  "addEventListener type l w =
     log (AddEventListener type l)
       (w\<lparr>listeners := (if (type, l) \<in> set (listeners w) then listeners w
                         else listeners w @ [(type, l)])\<rparr>)"

definition removeEventListener :: "string \<Rightarrow> listener \<Rightarrow> world \<Rightarrow> world" where
  "removeEventListener type l w =
     log (RemoveEventListener type l) (w\<lparr>listeners := removeAll (type, l) (listeners w)\<rparr>)"

text \<open>
  \<open>ext.loseContext()\<close>: only the object of \<open>WEBGL_lose_context\<close> has this method; it puts
  its context into the lost state.
\<close>

definition loseContext :: "extension \<Rightarrow> world \<Rightarrow> error + world" where
  "loseContext ext w =
     (case ext of Extension h name \<Rightarrow>
        if name = ''WEBGL_lose_context''
        then Inr (log (LoseContext h)
                    (w\<lparr>contexts := (contexts w)(h := (contexts w h)\<lparr>contextLost := True\<rparr>)\<rparr>))
        else Inl (TypeError ''this.extensions.loseContext.loseContext is not a function''))"

section \<open>The operations of the class\<close>

definition stencilWarning :: string where
  "stencilWarning =
     ''Provided WebGL context does not have a stencil buffer, masks may not render correctly''"

definition uint32Warning :: string where
  "uint32Warning =
     ''Provided WebGL context does not support 32 index buffer, complex graphics may not render correctly''"

definition constructor :: "WebGLRenderer \<Rightarrow> GlContextSystem" where
  "constructor r =
     \<lparr>renderer = Some r, webGLVersion = 1, supports = \<lparr>uint32Indices = False\<rparr>,
      preserveDrawingBuffer = None, powerPreference = None, CONTEXT_UID = None,
      gl = None, extensions = (\<lambda>_. None)\<rparr>"

definition isLost :: "GlContextSystem \<Rightarrow> world \<Rightarrow> bool" where
  "isLost m w = (case gl m of None \<Rightarrow> True | Some h \<Rightarrow> isContextLost w h)"

text \<open>
  \<open>'WebGL2RenderingContext' in globalThis && gl instanceof globalThis.WebGL2RenderingContext\<close>
\<close>

definition isWebGl2 :: "world \<Rightarrow> handle \<Rightarrow> bool" where
  "isWebGl2 w h =
     (WebGL2RenderingContext_in_globalThis w \<and> instanceofWebGL2RenderingContext (contexts w h))"

definition validateContext :: "handle option \<Rightarrow> GlContextSystem \<Rightarrow> world \<Rightarrow> unit res" where
  "validateContext g m w =
     (case g of
        None \<Rightarrow> (Inl (TypeError ''gl is null''), m, w)
      | Some h \<Rightarrow>
          (let attributes = getContextAttributes w h;
               m1 = (if isWebGl2 w h then m\<lparr>webGLVersion := 2\<rparr> else m);
               w1 = (case attributes of
                       None \<Rightarrow> w
                     | Some a \<Rightarrow>
                         if \<not> attr_stencil a then log (ConsoleWarn stencilWarning) w else w);
               hasUint32 = (isWebGl2 w h \<or> getExtension w h ''OES_element_index_uint'' \<noteq> None);
               m2 = m1\<lparr>supports := (supports m1)\<lparr>uint32Indices := hasUint32\<rparr>\<rparr>;
               w2 = (if \<not> hasUint32 then log (ConsoleWarn uint32Warning) w1 else w1)
           in (Inr (), m2, w2)))"

definition initFromContext :: "handle option \<Rightarrow> GlContextSystem \<Rightarrow> world \<Rightarrow> unit res" where
  "initFromContext g m w =
     (case validateContext g (m\<lparr>gl := g\<rparr>) w of
        (Inl e, m1, w1) \<Rightarrow> (Inl e, m1, w1)
      | (Inr _, m1, w1) \<Rightarrow>
          (case renderer m1 of
             None \<Rightarrow> (Inl (TypeError ''this.renderer is null''), m1, w1)
           | Some r \<Rightarrow>
               (Inr (), m1,
                addEventListener ''webglcontextrestored'' handleContextRestored_bound
                  (addEventListener ''webglcontextlost'' handleContextLost_bound
                     (log (EmitContextChange g) w1)))))"

definition getExtensions :: "GlContextSystem \<Rightarrow> world \<Rightarrow> unit res" where
  "getExtensions m w =
     (case gl m of
        None \<Rightarrow> (Inl (TypeError ''gl is null''), m, w)
      | Some g \<Rightarrow>
          (Inr (),
           m\<lparr>extensions := (extensions m)
               (''anisotropicFiltering'' := getExtension w g ''EXT_texture_filter_anisotropic'',
                ''floatTextureLinear'' := getExtension w g ''OES_texture_float_linear'',
                ''s3tc'' := getExtension w g ''WEBGL_compressed_texture_s3tc'',
                ''s3tc_sRGB'' := getExtension w g ''WEBGL_compressed_texture_s3tc_srgb'',
                ''etc'' := getExtension w g ''WEBGL_compressed_texture_etc'',
                ''etc1'' := getExtension w g ''WEBGL_compressed_texture_etc1'',
                ''pvrtc'' :=
                   (case getExtension w g ''WEBGL_compressed_texture_pvrtc'' of
                      Some x \<Rightarrow> Some x
                    | None \<Rightarrow> getExtension w g ''WEBKIT_WEBGL_compressed_texture_pvrtc''),
                ''atc'' := getExtension w g ''WEBGL_compressed_texture_atc'',
                ''astc'' := getExtension w g ''WEBGL_compressed_texture_astc'',
                ''colorBufferFloat'' := getExtension w g ''EXT_color_buffer_float'')\<rparr>,
           w))"

definition createContext ::
  "ICanvas \<Rightarrow> WebGLContextAttributes \<Rightarrow> GlContextSystem \<Rightarrow> world \<Rightarrow> (handle option) res" where
  "createContext canvas options m w =
     (let g = canvas_getContext canvas ''webgl2'' options;
          w1 = log (GetContext ''webgl2'' options) w;
          m1 = m\<lparr>webGLVersion := 2, gl := g\<rparr>
      in case getExtensions m1 w1 of
           (Inl e, m2, w2) \<Rightarrow> (Inl e, m2, w2)
         | (Inr _, m2, w2) \<Rightarrow> (Inr (gl m2), m2, w2))"

definition initFromOptions :: "WebGLContextAttributes \<Rightarrow> GlContextSystem \<Rightarrow> world \<Rightarrow> unit res" where
  "initFromOptions options m w =
     (case renderer m of
        None \<Rightarrow> (Inl (TypeError ''this.renderer is null''), m, w)
      | Some r \<Rightarrow>
          (case createContext (view_element r) options m w of
             (Inl e, m1, w1) \<Rightarrow> (Inl e, m1, w1)
           | (Inr g, m1, w1) \<Rightarrow> initFromContext g m1 w1))"

definition init :: "ContextSystemOptions option \<Rightarrow> GlContextSystem \<Rightarrow> world \<Rightarrow> unit res" where
  "init options m w =
     (case (case options of None \<Rightarrow> None | Some opts \<Rightarrow> opt_context opts) of
        Some c \<Rightarrow> initFromContext (Some c) m w
      | None \<Rightarrow>
          (case renderer m of
             None \<Rightarrow> (Inl (TypeError ''this.renderer is null''), m, w)
           | Some r \<Rightarrow>
               (case options of
                  None \<Rightarrow> (Inl (TypeError ''options is undefined''), m, w)
                | Some opts \<Rightarrow>
                    (let alpha = number_less (background_alpha r) (Finite 1);
                         premultipliedAlpha =
                           (case opt_premultipliedAlpha opts of None \<Rightarrow> True | Some b \<Rightarrow> b);
                         m1 = m\<lparr>preserveDrawingBuffer := Some (opt_preserveDrawingBuffer opts),
                                powerPreference := Some (opt_powerPreference opts)\<rparr>
                     in initFromOptions
                          \<lparr>attr_alpha = alpha,
                           attr_premultipliedAlpha = premultipliedAlpha,
                           attr_antialias = opt_antialias opts,
                           attr_stencil = True,
                           attr_preserveDrawingBuffer = opt_preserveDrawingBuffer opts,
                           attr_powerPreference = opt_powerPreference opts\<rparr>
                          m1 w))))"

definition handleContextLost :: "event \<Rightarrow> GlContextSystem \<Rightarrow> world \<Rightarrow> unit res" where
  "handleContextLost ev m w = (Inr (), m, log (PreventDefault ev) w)"

definition handleContextRestored :: "GlContextSystem \<Rightarrow> world \<Rightarrow> unit res" where
  "handleContextRestored m w =
     (case renderer m of
        None \<Rightarrow> (Inl (TypeError ''this.renderer is null''), m, w)
      | Some r \<Rightarrow> (Inr (), m, log (EmitContextChange (gl m)) w))"

definition destroy :: "GlContextSystem \<Rightarrow> world \<Rightarrow> unit res" where
  "destroy m w =
     (case renderer m of
        None \<Rightarrow> (Inl (TypeError ''this.renderer is null''), m, w)
      | Some r \<Rightarrow>
          (let m1 = m\<lparr>renderer := None\<rparr>;
               w1 = removeEventListener ''webglcontextrestored'' handleContextRestored_bound
                      (removeEventListener ''webglcontextlost'' handleContextLost_bound w)
           in case gl m1 of
                None \<Rightarrow> (Inl (TypeError ''this.gl is undefined''), m1, w1)
              | Some g \<Rightarrow>
                  (let w2 = log (UseProgramNull g) w1
                   in case extensions m1 ''loseContext'' of
                        None \<Rightarrow> (Inr (), m1, w2)
                      | Some ext \<Rightarrow>
                          (case loseContext ext w2 of
                             Inl e \<Rightarrow> (Inl e, m1, w2)
                           | Inr w3 \<Rightarrow> (Inr (), m1, w3)))))"

text \<open>
  The class also has the method \<open>contextChange\<close>; nothing in this file calls it (only the
  renderer's runner does), so \<open>runners.contextChange.emit(gl)\<close> is recorded in the trace as
  \<open>EmitContextChange gl\<close> and the subscribers' reactions are not part of the model.
\<close>

section \<open>Observations on traces and concrete hosts\<close>

fun getContextCall :: "effect \<Rightarrow> bool" where
  "getContextCall (GetContext _ _) = True"
| "getContextCall _ = False"

text \<open>A canvas that hands out the context object 7 for \<open>'webgl2'\<close>, and one that refuses.\<close>

definition example_canvas :: ICanvas where
  "example_canvas =
     \<lparr>canvas_getContext = (\<lambda>kind attrs. if kind = ''webgl2'' then Some 7 else None)\<rparr>"

definition null_canvas :: ICanvas where
  "null_canvas = \<lparr>canvas_getContext = (\<lambda>kind attrs. None)\<rparr>"

definition example_renderer :: WebGLRenderer where
  "example_renderer = \<lparr>background_alpha = Finite (1 / 2), view_element = example_canvas\<rparr>"

definition example_options :: ContextSystemOptions where
  "example_options =
     \<lparr>opt_context = None, opt_powerPreference = pp_high_performance,
      opt_premultipliedAlpha = Some False, opt_preserveDrawingBuffer = True,
      opt_antialias = None\<rparr>"

definition granted_attributes :: WebGLContextAttributes where
  "granted_attributes =
     \<lparr>attr_alpha = True, attr_premultipliedAlpha = False, attr_antialias = Some True,
      attr_stencil = True, attr_preserveDrawingBuffer = True,
      attr_powerPreference = pp_high_performance\<rparr>"

text \<open>
  A host whose context objects are WebGL2 instances with a stencil buffer and the
  \<open>WEBGL_lose_context\<close> extension.
\<close>

definition webgl2_context :: GlContext where
  "webgl2_context =
     \<lparr>instanceofWebGL2RenderingContext = True, contextLost = False,
      contextAttributes = Some granted_attributes,
      supportedExtensions = [''WEBGL_lose_context'', ''EXT_color_buffer_float'']\<rparr>"

definition example_world :: world where
  "example_world =
     \<lparr>WebGL2RenderingContext_in_globalThis = True, contexts = (\<lambda>_. webgl2_context),
      listeners = [], trace = []\<rparr>"

text \<open>
  A host without the \<open>WebGL2RenderingContext\<close> global whose context objects have neither a
  stencil buffer nor any extension.
\<close>

definition bare_context :: GlContext where
  "bare_context =
     \<lparr>instanceofWebGL2RenderingContext = False, contextLost = False,
      contextAttributes = Some (granted_attributes\<lparr>attr_stencil := False\<rparr>),
      supportedExtensions = []\<rparr>"

definition bare_world :: world where
  "bare_world =
     \<lparr>WebGL2RenderingContext_in_globalThis = False, contexts = (\<lambda>_. bare_context),
      listeners = [], trace = []\<rparr>"

text \<open>The manager and the host after \<open>new GlContextSystem(renderer).init(options)\<close>.\<close>

definition initialised_system :: GlContextSystem where
  "initialised_system =
     fst (snd (init (Some example_options) (constructor example_renderer) example_world))"

definition initialised_world :: world where
  "initialised_world =
     snd (snd (init (Some example_options) (constructor example_renderer) example_world))"


section \<open>Auxiliary facts\<close>

lemmas ex_defs = example_canvas_def null_canvas_def example_renderer_def example_options_def
  granted_attributes_def webgl2_context_def example_world_def bare_context_def bare_world_def

lemmas op_defs = init_def initFromOptions_def createContext_def getExtensions_def
  initFromContext_def validateContext_def destroy_def handleContextLost_def
  handleContextRestored_def loseContext_def addEventListener_def removeEventListener_def
  log_def getExtension_def getContextAttributes_def isWebGl2_def isContextLost_def isLost_def
  constructor_def

lemma initialised_system_eq:
  "initialised_system =
     \<lparr>renderer = Some example_renderer, webGLVersion = 2, supports = \<lparr>uint32Indices = True\<rparr>,
      preserveDrawingBuffer = Some True, powerPreference = Some pp_high_performance,
      CONTEXT_UID = None, gl = Some 7,
      extensions = (\<lambda>_. None)(''colorBufferFloat'' := Some (Extension 7 ''EXT_color_buffer_float''))\<rparr>"
  by (simp add: initialised_system_def op_defs ex_defs Let_def fun_eq_iff)

lemma initialised_world_eq:
  "initialised_world =
     example_world
       \<lparr>listeners := [(''webglcontextlost'', handleContextLost_bound),
                      (''webglcontextrestored'', handleContextRestored_bound)],
        trace := [GetContext ''webgl2''
                    \<lparr>attr_alpha = True, attr_premultipliedAlpha = False, attr_antialias = None,
                     attr_stencil = True, attr_preserveDrawingBuffer = True,
                     attr_powerPreference = pp_high_performance\<rparr>,
                  EmitContextChange (Some 7),
                  AddEventListener ''webglcontextlost'' handleContextLost_bound,
                  AddEventListener ''webglcontextrestored'' handleContextRestored_bound]\<rparr>"
  by (simp add: initialised_world_def op_defs ex_defs Let_def)

text \<open>What \<open>validateContext\<close> returns on a context object, in closed form.\<close>

lemma validateContext_Some:
  "validateContext (Some h) m w =
     (Inr (),
      m\<lparr>webGLVersion := (if isWebGl2 w h then 2 else webGLVersion m),
        supports := (supports m)
          \<lparr>uint32Indices :=
             (isWebGl2 w h \<or> getExtension w h ''OES_element_index_uint'' \<noteq> None)\<rparr>\<rparr>,
      w\<lparr>trace := trace w @
         (case getContextAttributes w h of
            None \<Rightarrow> []
          | Some a \<Rightarrow> if attr_stencil a then [] else [ConsoleWarn stencilWarning]) @
         (if isWebGl2 w h \<or> getExtension w h ''OES_element_index_uint'' \<noteq> None then []
          else [ConsoleWarn uint32Warning])\<rparr>)"
  by (simp add: validateContext_def Let_def log_def split: option.splits)

lemma validateContext_None:
  "validateContext None m w = (Inl (TypeError ''gl is null''), m, w)"
  by (simp add: validateContext_def)

text \<open>Queries on a context do not depend on the trace or on the listener table.\<close>

lemma isWebGl2_frame [simp]:
  "isWebGl2 (w\<lparr>trace := t\<rparr>) h = isWebGl2 w h"
  "isWebGl2 (w\<lparr>listeners := ls\<rparr>) h = isWebGl2 w h"
  by (simp_all add: isWebGl2_def)

lemma getExtension_frame [simp]:
  "getExtension (w\<lparr>trace := t\<rparr>) h n = getExtension w h n"
  "getExtension (w\<lparr>listeners := ls\<rparr>) h n = getExtension w h n"
  by (simp_all add: getExtension_def)

lemma isContextLost_frame [simp]:
  "isContextLost (w\<lparr>trace := t\<rparr>) h = isContextLost w h"
  "isContextLost (w\<lparr>listeners := ls\<rparr>) h = isContextLost w h"
  by (simp_all add: isContextLost_def)

lemma initFromContext_returns:
  assumes "initFromContext g m w = (Inr u, m', w')"
  shows "\<exists>h. g = Some h \<and> gl m' = Some h \<and>
           webGLVersion m' = (if isWebGl2 w h then 2 else webGLVersion m) \<and>
           uint32Indices (supports m') =
             (isWebGl2 w h \<or> getExtension w h ''OES_element_index_uint'' \<noteq> None) \<and>
           isWebGl2 w' h = isWebGl2 w h \<and>
           getExtension w' h ''OES_element_index_uint'' =
             getExtension w h ''OES_element_index_uint''"
proof (cases g)
  case None
  with assms show ?thesis
    by (simp add: initFromContext_def validateContext_None)
next
  case (Some h)
  with assms show ?thesis
    by (auto simp: initFromContext_def validateContext_Some addEventListener_def log_def
        split: option.splits)
qed

lemma createContext_returns:
  assumes "createContext c a m w = (Inr g, m', w')"
  shows "webGLVersion m' = 2 \<and> isWebGl2 w' = isWebGl2 w \<and> getExtension w' = getExtension w"
  using assms
  by (auto simp: createContext_def getExtensions_def Let_def log_def fun_eq_iff
      split: option.splits)

lemma init_returns:
  assumes "init options m w = (Inr u, m', w')"
  shows "\<exists>g. gl m' = Some g \<and>
           uint32Indices (supports m') =
             (isWebGl2 w' g \<or> getExtension w' g ''OES_element_index_uint'' \<noteq> None) \<and>
           (webGLVersion m' = 1 \<longrightarrow> \<not> isWebGl2 w' g)"
proof (cases "case options of None \<Rightarrow> None | Some opts \<Rightarrow> opt_context opts")
  case (Some c)
  with assms have "initFromContext (Some c) m w = (Inr u, m', w')"
    by (simp add: init_def)
  from initFromContext_returns [OF this] show ?thesis
    by (auto split: if_splits)
next
  case None
  with assms obtain r opts a where r: "renderer m = Some r" and o: "options = Some opts"
    and i: "initFromOptions a
              (m\<lparr>preserveDrawingBuffer := Some (opt_preserveDrawingBuffer opts),
                 powerPreference := Some (opt_powerPreference opts)\<rparr>) w = (Inr u, m', w')"
    by (auto simp: init_def Let_def split: option.splits)
  from i r obtain g m1 w1 where
    c: "createContext (view_element r) a
          (m\<lparr>preserveDrawingBuffer := Some (opt_preserveDrawingBuffer opts),
             powerPreference := Some (opt_powerPreference opts)\<rparr>) w = (Inr g, m1, w1)"
    and f: "initFromContext g m1 w1 = (Inr u, m', w')"
    by (auto simp: initFromOptions_def split: option.splits prod.splits sum.splits)
  from createContext_returns [OF c] initFromContext_returns [OF f] show ?thesis
    by (auto split: if_splits)
qed

section \<open>The claims\<close>

subsection \<open>C1: initialisation without a supplied context\<close>

text \<open>
  C1. For every options record without a context, \<open>init\<close> on a manager that still has its
  renderer requests a context from the surface with the attributes it builds. If the surface
  returns a context, \<open>init\<close> returns normally, holds that context and records
  \<open>webGLVersion = 2\<close>. If the surface returns \<open>null\<close>, \<open>init\<close> throws (the \<open>TypeError\<close> of
  \<open>getExtensions\<close> reading \<open>gl.getExtension\<close> on \<open>null\<close>). Whenever \<open>init\<close> returns normally,
  a context is held.
\<close>

theorem init_creates_or_throws:
  assumes "opt_context opts = None" and "renderer m = Some r"
  shows "(case canvas_getContext (view_element r) ''webgl2''
                 \<lparr>attr_alpha = number_less (background_alpha r) (Finite 1),
                  attr_premultipliedAlpha =
                    (case opt_premultipliedAlpha opts of None \<Rightarrow> True | Some b \<Rightarrow> b),
                  attr_antialias = opt_antialias opts,
                  attr_stencil = True,
                  attr_preserveDrawingBuffer = opt_preserveDrawingBuffer opts,
                  attr_powerPreference = opt_powerPreference opts\<rparr> of
            Some h \<Rightarrow>
              fst (init (Some opts) m w) = Inr () \<and>
              gl (fst (snd (init (Some opts) m w))) = Some h \<and>
              webGLVersion (fst (snd (init (Some opts) m w))) = 2
          | None \<Rightarrow> fst (init (Some opts) m w) = Inl (TypeError ''gl is null'')) \<and>
         (fst (init (Some opts) m w) = Inr () \<longrightarrow> gl (fst (snd (init (Some opts) m w))) \<noteq> None)"
  using assms
  by (auto simp: init_def initFromOptions_def createContext_def getExtensions_def
      initFromContext_def validateContext_def Let_def split: option.splits)

text \<open>Both cases at concrete hosts: a canvas that grants context 7 and one that refuses.\<close>

theorem init_creates_or_throws_witness:
  "fst (init (Some example_options) (constructor example_renderer) example_world) = Inr () \<and>
   gl (fst (snd (init (Some example_options) (constructor example_renderer) example_world)))
     = Some 7 \<and>
   webGLVersion
     (fst (snd (init (Some example_options) (constructor example_renderer) example_world))) = 2 \<and>
   fst (init (Some example_options)
          (constructor (example_renderer\<lparr>view_element := null_canvas\<rparr>)) example_world)
     = Inl (TypeError ''gl is null'')"
  using init_creates_or_throws
      [of example_options "constructor example_renderer" example_renderer example_world]
    init_creates_or_throws
      [of example_options "constructor (example_renderer\<lparr>view_element := null_canvas\<rparr>)"
          "example_renderer\<lparr>view_element := null_canvas\<rparr>" example_world]
  by (simp add: ex_defs constructor_def)

subsection \<open>C2: adopting a supplied WebGL2 context\<close>

text \<open>
  C2. When \<open>options.context\<close> is a context object that passes the WebGL2 instance test,
  \<open>init\<close> leaves \<open>webGLVersion = 2\<close> and holds that very object, whatever the other option
  fields and the manager's earlier state are, and it makes no \<open>getContext\<close> call: the
  \<open>getContext\<close> entries of the trace are the same before and after. If the manager still has
  its renderer, \<open>init\<close> returns normally.
\<close>

theorem init_adopts_webgl2_context:
  assumes "opt_context opts = Some h" and "isWebGl2 w h"
  shows "case init (Some opts) m w of (out, m', w') \<Rightarrow>
           webGLVersion m' = 2 \<and> gl m' = Some h \<and>
           filter getContextCall (trace w') = filter getContextCall (trace w) \<and>
           (renderer m \<noteq> None \<longrightarrow> out = Inr ())"
  using assms
  by (auto simp: init_def initFromContext_def validateContext_def Let_def log_def
      addEventListener_def split: option.splits)

theorem init_adopts_webgl2_context_witness:
  "webGLVersion (fst (snd (init (Some (example_options\<lparr>opt_context := Some 3\<rparr>))
                             (constructor example_renderer) example_world))) = 2 \<and>
   fst (init (Some (example_options\<lparr>opt_context := Some 3\<rparr>))
          (constructor example_renderer) example_world) = Inr () \<and>
   filter getContextCall
     (trace (snd (snd (init (Some (example_options\<lparr>opt_context := Some 3\<rparr>))
                         (constructor example_renderer) example_world)))) = []"
  using init_adopts_webgl2_context
      [of "example_options\<lparr>opt_context := Some 3\<rparr>" 3 example_world
          "constructor example_renderer"]
  by (simp add: ex_defs constructor_def isWebGl2_def split_beta)

subsection \<open>C3: 32-bit index support\<close>

text \<open>
  C3, as amended. After \<open>validateContext\<close> on a context object, \<open>supports.uint32Indices\<close> is
  true exactly when the object passes the WebGL2 instance test or has the
  \<open>OES_element_index_uint\<close> extension. So it is true whenever the object is a WebGL2 instance,
  and whenever \<open>webGLVersion\<close> is 1 afterwards it is true exactly when the extension is
  present. The warning about 32-bit indices is logged exactly when the flag is false, after
  the warning about the stencil buffer if there is one. The same holds for the held context
  after every \<open>init\<close> that returns normally.
\<close>

theorem validateContext_uint32Indices:
  "(case validateContext (Some h) m w of (out, m', w') \<Rightarrow>
      out = Inr () \<and>
      uint32Indices (supports m') =
        (isWebGl2 w h \<or> getExtension w h ''OES_element_index_uint'' \<noteq> None) \<and>
      (isWebGl2 w h \<longrightarrow> uint32Indices (supports m')) \<and>
      (webGLVersion m' = 1 \<longrightarrow>
         uint32Indices (supports m') = (getExtension w h ''OES_element_index_uint'' \<noteq> None)) \<and>
      trace w' =
        trace w @
        (case getContextAttributes w h of
           None \<Rightarrow> []
         | Some a \<Rightarrow> if attr_stencil a then [] else [ConsoleWarn stencilWarning]) @
        (if uint32Indices (supports m') then [] else [ConsoleWarn uint32Warning])) \<and>
   (case init options m w of (out, m', w') \<Rightarrow>
      out = Inr () \<longrightarrow>
      (\<exists>g. gl m' = Some g \<and>
           uint32Indices (supports m') =
             (isWebGl2 w' g \<or> getExtension w' g ''OES_element_index_uint'' \<noteq> None) \<and>
           (webGLVersion m' = 1 \<longrightarrow>
              uint32Indices (supports m') =
                (getExtension w' g ''OES_element_index_uint'' \<noteq> None))))"
proof (intro conjI)
  show "case validateContext (Some h) m w of (out, m', w') \<Rightarrow>
      out = Inr () \<and>
      uint32Indices (supports m') =
        (isWebGl2 w h \<or> getExtension w h ''OES_element_index_uint'' \<noteq> None) \<and>
      (isWebGl2 w h \<longrightarrow> uint32Indices (supports m')) \<and>
      (webGLVersion m' = 1 \<longrightarrow>
         uint32Indices (supports m') = (getExtension w h ''OES_element_index_uint'' \<noteq> None)) \<and>
      trace w' =
        trace w @
        (case getContextAttributes w h of
           None \<Rightarrow> []
         | Some a \<Rightarrow> if attr_stencil a then [] else [ConsoleWarn stencilWarning]) @
        (if uint32Indices (supports m') then [] else [ConsoleWarn uint32Warning])"
    by (simp add: validateContext_Some)
next
  show "case init options m w of (out, m', w') \<Rightarrow>
      out = Inr () \<longrightarrow>
      (\<exists>g. gl m' = Some g \<and>
           uint32Indices (supports m') =
             (isWebGl2 w' g \<or> getExtension w' g ''OES_element_index_uint'' \<noteq> None) \<and>
           (webGLVersion m' = 1 \<longrightarrow>
              uint32Indices (supports m') =
                (getExtension w' g ''OES_element_index_uint'' \<noteq> None)))"
  proof (cases "init options m w")
    case (fields out m' w')
    show ?thesis
    proof (cases out)
      case (Inl e)
      with fields show ?thesis by simp
    next
      case (Inr u)
      with fields init_returns [of options m w u m' w'] show ?thesis by auto
    qed
  qed
qed

theorem validateContext_uint32Indices_witness:
  "uint32Indices (supports (fst (snd (validateContext (Some 7) (constructor example_renderer)
                                        example_world)))) = True \<and>
   uint32Indices (supports (fst (snd (validateContext (Some 7) (constructor example_renderer)
                                        bare_world)))) = False \<and>
   trace (snd (snd (validateContext (Some 7) (constructor example_renderer) bare_world))) =
     [ConsoleWarn stencilWarning, ConsoleWarn uint32Warning]"
  using validateContext_uint32Indices
      [where h = 7 and m = "constructor example_renderer" and w = example_world
         and options = None]
    validateContext_uint32Indices
      [where h = 7 and m = "constructor example_renderer" and w = bare_world
         and options = None]
  by (simp add: ex_defs constructor_def isWebGl2_def getExtension_def getContextAttributes_def
      split_beta)

text \<open>
  C3 as written fails: \<open>createContext\<close> records version 2 before validation, and validation
  computes the flag from the instance test, not from the recorded version. On a host without
  the \<open>WebGL2RenderingContext\<close> global whose context lacks \<open>OES_element_index_uint\<close>, \<open>init\<close>
  returns normally with \<open>webGLVersion = 2\<close> and \<open>supports.uint32Indices = false\<close>.
\<close>

theorem uint32Indices_false_at_version_2:
  "fst (init (Some example_options) (constructor example_renderer) bare_world) = Inr () \<and>
   webGLVersion
     (fst (snd (init (Some example_options) (constructor example_renderer) bare_world))) = 2 \<and>
   uint32Indices
     (supports (fst (snd (init (Some example_options) (constructor example_renderer)
                            bare_world)))) = False"
  by (simp add: op_defs ex_defs Let_def)

subsection \<open>C4: the recorded version after validation\<close>

text \<open>
  C4, as amended. \<open>validateContext\<close> on a context object sets \<open>webGLVersion\<close> to 2 if the
  object passes the WebGL2 instance test, and otherwise leaves \<open>webGLVersion\<close> as it was: a
  recorded 1 stays 1 and a recorded 2 stays 2.
\<close>

theorem validateContext_webGLVersion:
  "case validateContext (Some h) m w of (out, m', w') \<Rightarrow>
     out = Inr () \<and>
     (isWebGl2 w h \<longrightarrow> webGLVersion m' = 2) \<and>
     (\<not> isWebGl2 w h \<longrightarrow> webGLVersion m' = webGLVersion m)"
  by (simp add: validateContext_Some)

theorem validateContext_webGLVersion_witness:
  "webGLVersion (fst (snd (validateContext (Some 7) (constructor example_renderer)
                             example_world))) = 2 \<and>
   webGLVersion (fst (snd (validateContext (Some 7) (constructor example_renderer)
                             bare_world))) = 1 \<and>
   webGLVersion (fst (snd (validateContext (Some 7)
                             ((constructor example_renderer)\<lparr>webGLVersion := 2\<rparr>)
                             bare_world))) = 2"
  using validateContext_webGLVersion
      [where h = 7 and m = "constructor example_renderer" and w = example_world]
    validateContext_webGLVersion
      [where h = 7 and m = "constructor example_renderer" and w = bare_world]
    validateContext_webGLVersion
      [where h = 7 and m = "(constructor example_renderer)\<lparr>webGLVersion := 2\<rparr>"
         and w = bare_world]
  by (simp add: ex_defs constructor_def isWebGl2_def split_beta)

text \<open>
  C4 as written fails in the downward direction: after \<open>init\<close> has created context 7 on a
  host where that object does not pass the WebGL2 instance test, validation has run, the
  context is held, and the recorded version is still the 2 that \<open>createContext\<close> wrote.
\<close>

theorem webGLVersion_not_lowered:
  "fst (init (Some example_options) (constructor example_renderer) bare_world) = Inr () \<and>
   gl (fst (snd (init (Some example_options) (constructor example_renderer) bare_world)))
     = Some 7 \<and>
   isWebGl2 (snd (snd (init (Some example_options) (constructor example_renderer) bare_world))) 7
     = False \<and>
   webGLVersion
     (fst (snd (init (Some example_options) (constructor example_renderer) bare_world))) = 2"
  by (simp add: op_defs ex_defs Let_def)

subsection \<open>C5: tearing down twice\<close>

text \<open>
  C5, as amended. \<open>destroy\<close> on a manager that has its renderer clears the renderer and
  removes the two listeners. If a context is held and \<open>extensions.loseContext\<close> is unset it
  then calls \<open>useProgram(null)\<close> and returns normally. A second \<open>destroy\<close> right after throws
  (the renderer is \<open>null\<close>) before any effect: manager and host stay as the first call left
  them, so no listener is detached twice. If no context is held, \<open>destroy\<close> is not a no-op:
  it clears the renderer, removes the listeners and then throws at \<open>this.gl.useProgram\<close>.
\<close>

theorem destroy_once_then_throws:
  assumes "renderer m = Some r"
  shows "case destroy m w of (out, m', w') \<Rightarrow>
           m' = m\<lparr>renderer := None\<rparr> \<and>
           listeners w' =
             removeAll (''webglcontextrestored'', handleContextRestored_bound)
               (removeAll (''webglcontextlost'', handleContextLost_bound) (listeners w)) \<and>
           destroy m' w' = (Inl (TypeError ''this.renderer is null''), m', w') \<and>
           (case gl m of
              None \<Rightarrow>
                out = Inl (TypeError ''this.gl is undefined'') \<and>
                trace w' = trace w @
                  [RemoveEventListener ''webglcontextlost'' handleContextLost_bound,
                   RemoveEventListener ''webglcontextrestored'' handleContextRestored_bound]
            | Some g \<Rightarrow>
                (extensions m ''loseContext'' = None \<longrightarrow>
                   out = Inr () \<and>
                   trace w' = trace w @
                     [RemoveEventListener ''webglcontextlost'' handleContextLost_bound,
                      RemoveEventListener ''webglcontextrestored'' handleContextRestored_bound,
                      UseProgramNull g]))"
  using assms
  by (auto simp: destroy_def removeEventListener_def log_def loseContext_def Let_def
      split: option.splits extension.splits)

theorem destroy_once_then_throws_witness:
  "fst (destroy initialised_system initialised_world) = Inr () \<and>
   listeners (snd (snd (destroy initialised_system initialised_world))) = [] \<and>
   trace (snd (snd (destroy initialised_system initialised_world))) =
     trace initialised_world @
       [RemoveEventListener ''webglcontextlost'' handleContextLost_bound,
        RemoveEventListener ''webglcontextrestored'' handleContextRestored_bound,
        UseProgramNull 7] \<and>
   destroy (fst (snd (destroy initialised_system initialised_world)))
     (snd (snd (destroy initialised_system initialised_world))) =
     (Inl (TypeError ''this.renderer is null''),
      fst (snd (destroy initialised_system initialised_world)),
      snd (snd (destroy initialised_system initialised_world)))"
proof -
  have r: "renderer initialised_system = Some example_renderer"
    and g: "gl initialised_system = Some 7"
    and e: "extensions initialised_system ''loseContext'' = None"
    and l: "listeners initialised_world =
              [(''webglcontextlost'', handleContextLost_bound),
               (''webglcontextrestored'', handleContextRestored_bound)]"
    by (simp_all add: initialised_system_eq initialised_world_eq)
  obtain out m' w' where d: "destroy initialised_system initialised_world = (out, m', w')"
    by (cases "destroy initialised_system initialised_world")
  with destroy_once_then_throws [OF r, of initialised_world] show ?thesis
    by (clarsimp simp: g e l)
qed

text \<open>
  C5 as written fails: on the initialised manager the first \<open>destroy\<close> returns normally and
  the second one throws; and on a freshly constructed manager, which holds no context,
  \<open>destroy\<close> throws after it has cleared the renderer and called \<open>removeEventListener\<close> twice.
\<close>

theorem destroy_twice_throws:
  "fst (destroy initialised_system initialised_world) = Inr () \<and>
   fst (destroy (fst (snd (destroy initialised_system initialised_world)))
          (snd (snd (destroy initialised_system initialised_world))))
     = Inl (TypeError ''this.renderer is null'') \<and>
   destroy (constructor example_renderer) example_world =
     (Inl (TypeError ''this.gl is undefined''),
      (constructor example_renderer)\<lparr>renderer := None\<rparr>,
      example_world
        \<lparr>trace := [RemoveEventListener ''webglcontextlost'' handleContextLost_bound,
                   RemoveEventListener ''webglcontextrestored'' handleContextRestored_bound]\<rparr>)"
  by (simp add: initialised_system_eq initialised_world_eq destroy_def removeEventListener_def
      log_def Let_def constructor_def example_world_def)

subsection \<open>C6: the loss handler\<close>

text \<open>
  C6. When a context is held and reports itself lost, \<open>handleContextLost\<close> on an event returns
  normally, leaves the manager unchanged, and adds exactly one entry to the trace, the
  \<open>preventDefault\<close> call on that event; so it emits no context change. \<open>isLost\<close> is true
  afterwards.
\<close>

theorem handleContextLost_only_prevents_default:
  assumes "gl m = Some h" and "isContextLost w h"
  shows "handleContextLost ev m w = (Inr (), m, w\<lparr>trace := trace w @ [PreventDefault ev]\<rparr>) \<and>
         isLost m (w\<lparr>trace := trace w @ [PreventDefault ev]\<rparr>)"
  using assms by (simp add: handleContextLost_def log_def isLost_def)

theorem handleContextLost_only_prevents_default_witness:
  "handleContextLost 1 initialised_system
     (initialised_world\<lparr>contexts := (\<lambda>_. webgl2_context\<lparr>contextLost := True\<rparr>)\<rparr>) =
     (Inr (), initialised_system,
      initialised_world
        \<lparr>contexts := (\<lambda>_. webgl2_context\<lparr>contextLost := True\<rparr>),
         trace := trace initialised_world @ [PreventDefault 1]\<rparr>) \<and>
   isLost initialised_system
     (initialised_world
        \<lparr>contexts := (\<lambda>_. webgl2_context\<lparr>contextLost := True\<rparr>),
         trace := trace initialised_world @ [PreventDefault 1]\<rparr>)"
  using handleContextLost_only_prevents_default
      [where m = initialised_system and h = 7 and ev = 1
         and w = "initialised_world\<lparr>contexts := (\<lambda>_. webgl2_context\<lparr>contextLost := True\<rparr>)\<rparr>"]
  by (simp add: initialised_system_eq initialised_world_eq isContextLost_def example_world_def)

subsection \<open>C7: the restoration handler\<close>




subsection \<open>C8: forcing the loss of the context on teardown\<close>

text \<open>
  C8. The specification has \<open>destroy\<close> force the loss of every context that has the
  \<open>WEBGL_lose_context\<close> extension, and the class documents \<open>extensions.loseContext\<close>.
  The code does not do it: \<open>getExtensions\<close> never assigns \<open>extensions.loseContext\<close>. At the initialised manager, whose context 7 has the extension,
  \<open>extensions.loseContext\<close> is unset, \<open>destroy\<close> returns normally, no \<open>loseContext()\<close> call is
  in the trace and the context is not lost.
\<close>

theorem destroy_skips_loseContext:
  "getExtension example_world 7 ''WEBGL_lose_context'' = Some (Extension 7 ''WEBGL_lose_context'') \<and>
   fst (init (Some example_options) (constructor example_renderer) example_world) = Inr () \<and>
   gl initialised_system = Some 7 \<and>
   extensions initialised_system ''loseContext'' = None \<and>
   fst (destroy initialised_system initialised_world) = Inr () \<and>
   isContextLost (snd (snd (destroy initialised_system initialised_world))) 7 = False \<and>
   LoseContext 7 \<notin> set (trace (snd (snd (destroy initialised_system initialised_world))))"
proof -
  have "fst (init (Some example_options) (constructor example_renderer) example_world) = Inr ()"
    by (simp add: op_defs ex_defs Let_def)
  moreover have "getExtension example_world 7 ''WEBGL_lose_context'' =
      Some (Extension 7 ''WEBGL_lose_context'')"
    by (simp add: getExtension_def example_world_def webgl2_context_def)
  moreover have "destroy initialised_system initialised_world =
      (Inr (), initialised_system\<lparr>renderer := None\<rparr>,
       initialised_world
         \<lparr>listeners := [],
          trace := trace initialised_world @
            [RemoveEventListener ''webglcontextlost'' handleContextLost_bound,
             RemoveEventListener ''webglcontextrestored'' handleContextRestored_bound,
             UseProgramNull 7]\<rparr>)"
    by (simp add: initialised_system_eq initialised_world_eq destroy_def
        removeEventListener_def log_def Let_def)
  ultimately show ?thesis
    by (simp add: initialised_system_eq initialised_world_eq isContextLost_def
        example_world_def webgl2_context_def)
qed

subsection \<open>C9: the creation attributes\<close>

text \<open>
  C9. When \<open>init\<close> runs without a supplied context on a manager that has its renderer, it
  makes exactly one \<open>getContext\<close> call, for \<open>'webgl2'\<close>, and the attributes passed have
  \<open>alpha\<close> equal to \<open>renderer.background.alpha < 1\<close>, \<open>stencil\<close> true, \<open>premultipliedAlpha\<close>
  equal to the option or true if unset, and the caller's \<open>preserveDrawingBuffer\<close>,
  \<open>powerPreference\<close> and \<open>antialias\<close> unchanged.
\<close>

theorem init_creation_attributes:
  assumes "opt_context opts = None" and "renderer m = Some r"
  shows "filter getContextCall (trace (snd (snd (init (Some opts) m w)))) =
           filter getContextCall (trace w) @
           [GetContext ''webgl2''
              \<lparr>attr_alpha = number_less (background_alpha r) (Finite 1),
               attr_premultipliedAlpha =
                 (case opt_premultipliedAlpha opts of None \<Rightarrow> True | Some b \<Rightarrow> b),
               attr_antialias = opt_antialias opts,
               attr_stencil = True,
               attr_preserveDrawingBuffer = opt_preserveDrawingBuffer opts,
               attr_powerPreference = opt_powerPreference opts\<rparr>]"
  using assms
  by (auto simp: init_def initFromOptions_def createContext_def getExtensions_def
      initFromContext_def validateContext_Some Let_def log_def addEventListener_def
      split: option.splits)

theorem init_creation_attributes_witness:
  "filter getContextCall
     (trace (snd (snd (init (Some example_options) (constructor example_renderer)
                         example_world)))) =
     [GetContext ''webgl2''
        \<lparr>attr_alpha = True, attr_premultipliedAlpha = False, attr_antialias = None,
         attr_stencil = True, attr_preserveDrawingBuffer = True,
         attr_powerPreference = pp_high_performance\<rparr>]"
  using init_creation_attributes
      [where opts = example_options and m = "constructor example_renderer"
         and r = example_renderer and w = example_world]
  by (simp add: ex_defs constructor_def)

subsection \<open>C10: what adopting a supplied context leaves alone\<close>

text \<open>
  C10. When \<open>init\<close> is called with a context in \<open>options.context\<close>, the manager's
  \<open>preserveDrawingBuffer\<close> and \<open>powerPreference\<close> keep their earlier values. Of the manager
  only \<open>gl\<close>, \<open>webGLVersion\<close> and \<open>supports\<close> can differ afterwards, and of the host only the
  listener table and the trace.
\<close>

theorem init_from_context_frame:
  assumes "opt_context opts = Some h"
  shows "case init (Some opts) m w of (out, m', w') \<Rightarrow>
           preserveDrawingBuffer m' = preserveDrawingBuffer m \<and>
           powerPreference m' = powerPreference m \<and>
           m' = m\<lparr>gl := Some h, webGLVersion := webGLVersion m', supports := supports m'\<rparr> \<and>
           w' = w\<lparr>listeners := listeners w', trace := trace w'\<rparr>"
  using assms
  by (auto simp: init_def initFromContext_def validateContext_Some log_def addEventListener_def
      split: option.splits)

theorem init_from_context_frame_witness:
  "preserveDrawingBuffer
     (fst (snd (init (Some (example_options\<lparr>opt_context := Some 3\<rparr>))
                  (constructor example_renderer) example_world))) = None \<and>
   powerPreference
     (fst (snd (init (Some (example_options\<lparr>opt_context := Some 3\<rparr>))
                  (constructor example_renderer) example_world))) = None"
  using init_from_context_frame
      [where opts = "example_options\<lparr>opt_context := Some 3\<rparr>" and h = 3
         and m = "constructor example_renderer" and w = example_world]
  by (simp add: ex_defs constructor_def split_beta)

end
